theory Spec2Isabelle
  imports Complex_Main "HOL-Library.AList"
begin

section \<open>Data model\<close>

text \<open>
  The batch subsystem of the gateway: \<^verbatim>\<open>app/services/batch_service.py\<close>,
  \<^verbatim>\<open>app/services/llm_client.py\<close>, \<^verbatim>\<open>app/routers/batch.py\<close>,
  \<^verbatim>\<open>app/config.py\<close> and \<^verbatim>\<open>workers/batch_worker.py\<close>.

  Python values are modelled as follows. An \<^verbatim>\<open>int\<close> is an \<open>int\<close>, a \<^verbatim>\<open>str\<close> a
  \<open>string\<close>, an \<^verbatim>\<open>Optional[T]\<close> a \<open>T option\<close> with \<open>None\<close> for Python's
  \<^verbatim>\<open>None\<close>. The sampling parameters are Python floats that the batch code only stores,
  compares with zero (\<^verbatim>\<open>x or default\<close>) and passes on; they are modelled as rationals.
  A unix timestamp \<^verbatim>\<open>int(time.time())\<close> is an \<open>int\<close>; the clock reading is an
  argument of every operation that reads the clock.
\<close>

type_synonym pyfloat = rat
type_synonym timestamp = int

text \<open>\<^verbatim>\<open>schemas.Message\<close>: a role and a content.\<close>

record message =
  role :: string
  content :: string

text \<open>
  A task as \<^verbatim>\<open>submit_batch_generation\<close> builds it from a \<^verbatim>\<open>schemas.BatchTask\<close>:
  \<^verbatim>\<open>{"id": task.id, "messages": task.messages}\<close>. Both keys are always present
  (\<^verbatim>\<open>batch_chat_completion\<close>'s docstring: "List of tasks, each with 'id' and
  'messages'"), so the dictionary is a record.
\<close>

record task =
  t_id :: string
  t_messages :: "message list"

text \<open>\<^verbatim>\<open>schemas.UsageInfo\<close> and the \<^verbatim>\<open>'usage'\<close> dictionary of a task result.\<close>

record usage_info =
  prompt_tokens :: int
  completion_tokens :: int
  total_tokens :: int

text \<open>
  One entry of the list \<^verbatim>\<open>batch_chat_completion\<close> returns:
  \<^verbatim>\<open>{'id': ..., 'output': ..., 'usage': {...}, 'error': ...}\<close>.
\<close>

record task_result =
  r_id :: string
  r_output :: string
  r_usage :: usage_info
  r_error :: "string option"

text \<open>
  The \<^verbatim>\<open>job_data\<close> dictionary of \<^verbatim>\<open>submit_batch_job\<close>, with the source's keys.
  \<^verbatim>\<open>status\<close> is a Python string: \<^verbatim>\<open>update_job_status\<close> stores whatever string it is
  given.
\<close>

record job =
  job_id :: string
  status :: string
  model_id :: string
  tasks :: "task list"
  max_tokens :: int
  temperature :: pyfloat
  top_p :: pyfloat
  metadata :: "(string \<times> string) list"
  submitted_at :: timestamp
  started_at :: "timestamp option"
  completed_at :: "timestamp option"
  task_count :: nat
  completed_count :: nat
  failed_count :: nat
  results :: "task_result list option"
  error :: "string option"

section \<open>Python truthiness\<close>

text \<open>
  The source tests values with \<^verbatim>\<open>if x:\<close> and \<^verbatim>\<open>not x\<close>. \<^verbatim>\<open>None\<close>, the integer
  \<^verbatim>\<open>0\<close>, the empty string and the empty list are false; every other value of these
  types is true.
\<close>

definition truthy_int :: "int option \<Rightarrow> bool" where
  "truthy_int x = (case x of None \<Rightarrow> False | Some n \<Rightarrow> n \<noteq> 0)"

definition truthy_str :: "string option \<Rightarrow> bool" where
  "truthy_str x = (case x of None \<Rightarrow> False | Some s \<Rightarrow> s \<noteq> [])"

definition truthy_list :: "'a list option \<Rightarrow> bool" where
  "truthy_list x = (case x of None \<Rightarrow> False | Some xs \<Rightarrow> xs \<noteq> [])"

section \<open>The Redis server\<close>

text \<open>
  The durable backend is a Redis server reached through \<^verbatim>\<open>redis.Redis\<close>; it is a
  collaborator of the repository, modelled by the four commands the service issues.
  String keys hold a value and the instant at which the key expires; list keys hold a
  list. \<^verbatim>\<open>SET key value EX seconds\<close> replaces the value and sets the expiry to
  \<open>seconds\<close> after the write; \<^verbatim>\<open>GET\<close> returns the value of a key that has not
  expired (the server expires a key once its clock is past that instant);
  \<^verbatim>\<open>LPUSH\<close> adds at the head of a list; \<^verbatim>\<open>RPOP\<close> removes from its tail and
  answers \<^verbatim>\<open>None\<close> on an empty list. The service writes a job with
  \<^verbatim>\<open>json.dumps\<close> and reads it with \<^verbatim>\<open>json.loads\<close>; the stored value is the job
  itself. The server is taken to be reachable: a connection failure is not modelled.
\<close>

record redis =
  strings :: "string \<Rightarrow> (job \<times> timestamp) option"
  lists :: "string \<Rightarrow> string list"

definition redis_set :: "redis \<Rightarrow> timestamp \<Rightarrow> string \<Rightarrow> job \<Rightarrow> int \<Rightarrow> redis" where
  "redis_set r now key v ex = r\<lparr>strings := (strings r)(key \<mapsto> (v, now + ex))\<rparr>"

definition redis_get :: "redis \<Rightarrow> timestamp \<Rightarrow> string \<Rightarrow> job option" where
  "redis_get r now key =
     (case strings r key of
        None \<Rightarrow> None
      | Some (v, expires) \<Rightarrow> if now \<le> expires then Some v else None)"

definition redis_lpush :: "redis \<Rightarrow> string \<Rightarrow> string \<Rightarrow> redis" where
  "redis_lpush r key x = r\<lparr>lists := (lists r)(key := x # lists r key)\<rparr>"

definition redis_rpop :: "redis \<Rightarrow> string \<Rightarrow> string option \<times> redis" where
  "redis_rpop r key =
     (case rev (lists r key) of
        [] \<Rightarrow> (None, r)
      | x # xs \<Rightarrow> (Some x, r\<lparr>lists := (lists r)(key := rev xs)\<rparr>))"

section \<open>BatchService\<close>

text \<open>
  \<^verbatim>\<open>_initialize_redis\<close> leaves the service in one of two shapes, for good:
  \<^verbatim>\<open>redis_client\<close> set, or \<^verbatim>\<open>redis_client = None\<close> with the dictionary
  \<^verbatim>\<open>_in_memory_jobs\<close>. A Python dictionary keeps insertion order, which
  \<^verbatim>\<open>get_next_job\<close> iterates, so the dictionary is an association list:
  \<open>AList.update\<close> replaces the value of a present key in place and appends a new key.
\<close>

datatype batch_service =
  RedisClient redis
| InMemoryJobs "(string \<times> job) list"

text \<open>
  \<^verbatim>\<open>submit_batch_job\<close>. \<open>uuid_hex\<close> is \<^verbatim>\<open>uuid.uuid4().hex\<close> and \<open>now\<close> the clock
  reading; the result is the job id and the service after the call.
\<close>

definition submit_batch_job ::
  "batch_service \<Rightarrow> timestamp \<Rightarrow> string \<Rightarrow> string \<Rightarrow> task list \<Rightarrow> int \<Rightarrow> pyfloat \<Rightarrow> pyfloat \<Rightarrow>
   (string \<times> string) list option \<Rightarrow> string \<times> batch_service" where
  "submit_batch_job svc now uuid_hex mid ts mt temp tp md =
     (let jid = ''batch-'' @ take 12 uuid_hex;
          job_data = \<lparr> job_id = jid, status = ''queued'', model_id = mid, tasks = ts,
                       max_tokens = mt, temperature = temp, top_p = tp,
                       metadata = (case md of None \<Rightarrow> [] | Some m \<Rightarrow> m),
                       submitted_at = now, started_at = None, completed_at = None,
                       task_count = length ts, completed_count = 0, failed_count = 0,
                       results = None, error = None \<rparr>
      in case svc of
           RedisClient r \<Rightarrow>
             (jid, RedisClient (redis_lpush (redis_set r now (''job:'' @ jid) job_data 86400)
                                  ''batch_queue'' jid))
         | InMemoryJobs jobs \<Rightarrow> (jid, InMemoryJobs (AList.update jid job_data jobs)))"

text \<open>\<^verbatim>\<open>get_job_status\<close>: the job, or \<open>None\<close> when it is not found.\<close>

definition get_job_status :: "batch_service \<Rightarrow> timestamp \<Rightarrow> string \<Rightarrow> job option" where
  "get_job_status svc now jid =
     (case svc of
        RedisClient r \<Rightarrow> redis_get r now (''job:'' @ jid)
      | InMemoryJobs jobs \<Rightarrow> map_of jobs jid)"

text \<open>
  Lines 136 to 150 of \<^verbatim>\<open>update_job_status\<close>: the assignments to \<^verbatim>\<open>job_data\<close>,
  one \<open>let\<close> each, in the source's order.
\<close>

definition apply_update ::
  "job \<Rightarrow> timestamp \<Rightarrow> string \<Rightarrow> task_result list option \<Rightarrow> string option \<Rightarrow> job" where
  "apply_update job_data now st rs err =
     (let j1 = job_data\<lparr>status := st\<rparr>;
          j2 = (if st = ''processing'' \<and> \<not> truthy_int (started_at j1)
                then j1\<lparr>started_at := Some now\<rparr> else j1);
          j3 = (if st \<in> set [''completed'', ''failed'']
                then j2\<lparr>completed_at := Some now\<rparr> else j2);
          j4 = (case rs of
                  None \<Rightarrow> j3
                | Some xs \<Rightarrow>
                    if truthy_list rs
                    then j3\<lparr>results := rs,
                            completed_count :=
                              length (filter (\<lambda>r. \<not> truthy_str (r_error r)) xs),
                            failed_count :=
                              length (filter (\<lambda>r. truthy_str (r_error r)) xs)\<rparr>
                    else j3);
          j5 = (if truthy_str err then j4\<lparr>error := err\<rparr> else j4)
      in j5)"

text \<open>
  \<^verbatim>\<open>update_job_status\<close>: look the job up, return at once when it is not found,
  otherwise change the fields and write the record back. The function returns nothing,
  so the model returns the service after the call.
\<close>

definition update_job_status ::
  "batch_service \<Rightarrow> timestamp \<Rightarrow> string \<Rightarrow> string \<Rightarrow> task_result list option \<Rightarrow> string option \<Rightarrow>
   batch_service" where
  "update_job_status svc now jid st rs err =
     (case get_job_status svc now jid of
        None \<Rightarrow> svc
      | Some job_data \<Rightarrow>
          (let job_data' = apply_update job_data now st rs err
           in case svc of
                RedisClient r \<Rightarrow> RedisClient (redis_set r now (''job:'' @ jid) job_data' 86400)
              | InMemoryJobs jobs \<Rightarrow> InMemoryJobs (AList.update jid job_data' jobs)))"

text \<open>
  \<^verbatim>\<open>get_next_job\<close>: the next job id, or \<open>None\<close>; the Redis backend pops the queue, the
  fallback returns the first job of the dictionary whose status is still
  \<^verbatim>\<open>'queued'\<close>.
\<close>

definition get_next_job :: "batch_service \<Rightarrow> string option \<times> batch_service" where
  "get_next_job svc =
     (case svc of
        RedisClient r \<Rightarrow>
          (case redis_rpop r ''batch_queue'' of (x, r') \<Rightarrow> (x, RedisClient r'))
      | InMemoryJobs jobs \<Rightarrow>
          (case find (\<lambda>(k, job_data). status job_data = ''queued'') jobs of
             None \<Rightarrow> (None, svc)
           | Some (k, job_data) \<Rightarrow> (Some k, svc)))"

section \<open>Model registry and authentication\<close>

text \<open>
  \<^verbatim>\<open>config.ModelConfig\<close>: \<^verbatim>\<open>models\<close> is the dictionary read from the YAML file, from
  model id to configuration. Of a configuration the batch path reads
  \<^verbatim>\<open>model_name\<close>; the other keys only parametrise the HTTP client.
\<close>

record model_config =
  model_name :: string

type_synonym model_registry = "string \<Rightarrow> model_config option"

definition get_model :: "model_registry \<Rightarrow> string \<Rightarrow> model_config option" where
  "get_model models mid = models mid"

definition is_valid_model :: "model_registry \<Rightarrow> string \<Rightarrow> bool" where
  "is_valid_model models mid = (mid \<in> dom models)"

text \<open>
  Python exceptions, as values. \<^verbatim>\<open>str(e)\<close> of these exceptions is the message they
  were built with; of an \<^verbatim>\<open>HTTPException\<close> the model keeps status code and detail.
\<close>

datatype exn =
  ValueError string
| RuntimeError string
| IndexError string
| HTTPException int string

fun str_exn :: "exn \<Rightarrow> string" where
  "str_exn (ValueError m) = m"
| "str_exn (RuntimeError m) = m"
| "str_exn (IndexError m) = m"
| "str_exn (HTTPException c m) = m"

text \<open>
  \<^verbatim>\<open>auth.verify_api_key\<close>; \<open>api_keys\<close> is the list \<^verbatim>\<open>get_api_keys()\<close> returns and
  \<open>token\<close> the bearer token of the request.
\<close>

definition verify_api_key :: "string list \<Rightarrow> string \<Rightarrow> exn + string" where
  "verify_api_key api_keys token =
     (if api_keys = [] then Inr ''dev-mode''
      else if token \<notin> set api_keys then Inl (HTTPException 401 ''Invalid API key'')
      else Inr token)"

section \<open>LLMClient\<close>

text \<open>
  The backend is the external model capability, \<^verbatim>\<open>client.chat.completions.create\<close>.
  It is a parameter of the model: \<open>create n\<close> answers the \<open>n\<close>-th call of a batch, with
  \<open>Inl m\<close> when the call raises an exception whose \<^verbatim>\<open>str\<close> is \<open>m\<close> and \<open>Inr\<close> of
  the response otherwise, so that the same request may fail once and succeed later.
  \<open>uuid4_hex n\<close> and \<open>time_now n\<close> are the values \<^verbatim>\<open>uuid.uuid4().hex\<close> and
  \<^verbatim>\<open>int(time.time())\<close> take during that call.
\<close>

record backend_choice =
  bc_content :: "string option"
  bc_finish_reason :: "string option"

record backend_response =
  br_choices :: "backend_choice list"
  br_usage :: "usage_info option"

record backend =
  create :: "nat \<Rightarrow> string \<Rightarrow> message list \<Rightarrow> int \<Rightarrow> pyfloat \<Rightarrow> pyfloat \<Rightarrow> string + backend_response"
  uuid4_hex :: "nat \<Rightarrow> string"
  time_now :: "nat \<Rightarrow> timestamp"

record chat_choice =
  ch_index :: int
  ch_message :: message
  ch_finish_reason :: "string option"

record chat_completion_response =
  cc_id :: string
  cc_model :: string
  cc_created :: timestamp
  cc_choices :: "chat_choice list"
  cc_usage :: usage_info

text \<open>
  \<^verbatim>\<open>chat_completion\<close>. An unknown model raises \<^verbatim>\<open>ValueError\<close>; everything the
  \<^verbatim>\<open>try\<close> block raises (the backend call, \<^verbatim>\<open>response.choices[0]\<close> on an empty
  list) is raised again as a \<^verbatim>\<open>RuntimeError\<close>. The client cache \<^verbatim>\<open>self.clients\<close>
  does not influence the result and is left out.
\<close>

definition chat_completion ::
  "model_registry \<Rightarrow> backend \<Rightarrow> nat \<Rightarrow> string \<Rightarrow> message list \<Rightarrow> int \<Rightarrow> pyfloat \<Rightarrow> pyfloat \<Rightarrow>
   exn + chat_completion_response" where
  "chat_completion models be n mid msgs mt temp tp =
     (case get_model models mid of
        None \<Rightarrow> Inl (ValueError (''Unknown model: '' @ mid))
      | Some config \<Rightarrow>
          (case create be n (model_name config) msgs mt temp tp of
             Inl m \<Rightarrow> Inl (RuntimeError (''Error calling model '' @ mid @ '': '' @ m))
           | Inr response \<Rightarrow>
               (case br_choices response of
                  [] \<Rightarrow> Inl (RuntimeError (''Error calling model '' @ mid @
                                            '': list index out of range''))
                | c # cs \<Rightarrow>
                    Inr \<lparr> cc_id = ''chatcmpl-'' @ take 12 (uuid4_hex be n),
                          cc_model = mid,
                          cc_created = time_now be n,
                          cc_choices =
                            [\<lparr> ch_index = 0,
                               ch_message =
                                 \<lparr> role = ''assistant'',
                                   content = (case bc_content c of
                                                None \<Rightarrow> []
                                              | Some s \<Rightarrow> s) \<rparr>,
                               ch_finish_reason = bc_finish_reason c \<rparr>],
                          cc_usage =
                            (case br_usage response of
                               None \<Rightarrow> \<lparr> prompt_tokens = 0, completion_tokens = 0,
                                         total_tokens = 0 \<rparr>
                             | Some u \<Rightarrow> u) \<rparr>)))"

text \<open>
  The body of the \<^verbatim>\<open>for\<close> loop of \<^verbatim>\<open>batch_chat_completion\<close>: \<open>try_task\<close> is the
  \<^verbatim>\<open>try\<close> block, with whatever it raises as \<open>Inl\<close>, and \<open>task_result_of\<close> adds the
  \<^verbatim>\<open>except Exception\<close> handler.
\<close>

definition try_task ::
  "model_registry \<Rightarrow> backend \<Rightarrow> string \<Rightarrow> int \<Rightarrow> pyfloat \<Rightarrow> pyfloat \<Rightarrow> nat \<Rightarrow> task \<Rightarrow>
   exn + task_result" where
  "try_task models be mid mt temp tp n t =
     (case chat_completion models be n mid (t_messages t) mt temp tp of
        Inl e \<Rightarrow> Inl e
      | Inr response \<Rightarrow>
          (case cc_choices response of
             [] \<Rightarrow> Inl (IndexError ''list index out of range'')
           | c # cs \<Rightarrow>
               Inr \<lparr> r_id = t_id t,
                     r_output = content (ch_message c),
                     r_usage = \<lparr> prompt_tokens = prompt_tokens (cc_usage response),
                                 completion_tokens = completion_tokens (cc_usage response),
                                 total_tokens = total_tokens (cc_usage response) \<rparr>,
                     r_error = None \<rparr>))"

definition task_result_of ::
  "model_registry \<Rightarrow> backend \<Rightarrow> string \<Rightarrow> int \<Rightarrow> pyfloat \<Rightarrow> pyfloat \<Rightarrow> nat \<Rightarrow> task \<Rightarrow>
   task_result" where
  "task_result_of models be mid mt temp tp n t =
     (case try_task models be mid mt temp tp n t of
        Inr r \<Rightarrow> r
      | Inl e \<Rightarrow>
          \<lparr> r_id = t_id t,
            r_output = [],
            r_usage = \<lparr> prompt_tokens = 0, completion_tokens = 0, total_tokens = 0 \<rparr>,
            r_error = Some (str_exn e) \<rparr>)"

text \<open>
  The loop: \<open>n\<close> counts the tasks already run, \<open>acc\<close> is the list \<^verbatim>\<open>results\<close> that the
  loop appends to.
\<close>

fun batch_loop ::
  "model_registry \<Rightarrow> backend \<Rightarrow> string \<Rightarrow> int \<Rightarrow> pyfloat \<Rightarrow> pyfloat \<Rightarrow> nat \<Rightarrow> task list \<Rightarrow>
   task_result list \<Rightarrow> task_result list" where
  "batch_loop models be mid mt temp tp n [] acc = acc"
| "batch_loop models be mid mt temp tp n (t # ts) acc =
     batch_loop models be mid mt temp tp (Suc n) ts
       (acc @ [task_result_of models be mid mt temp tp n t])"

definition batch_chat_completion ::
  "model_registry \<Rightarrow> backend \<Rightarrow> string \<Rightarrow> task list \<Rightarrow> int \<Rightarrow> pyfloat \<Rightarrow> pyfloat \<Rightarrow>
   task_result list" where
  "batch_chat_completion models be mid ts mt temp tp =
     batch_loop models be mid mt temp tp 0 ts []"

section \<open>The submission endpoint\<close>

text \<open>
  \<^verbatim>\<open>schemas.BatchGenerationRequest\<close> and \<^verbatim>\<open>schemas.BatchSubmissionResponse\<close>.
\<close>

record batch_generation_request =
  req_model :: string
  req_tasks :: "task list"
  req_max_tokens :: "int option"
  req_temperature :: "pyfloat option"
  req_top_p :: "pyfloat option"
  batch_metadata :: "(string \<times> string) list option"

record batch_submission_response =
  resp_job_id :: string
  resp_status :: string
  resp_submitted_at :: timestamp
  resp_task_count :: nat

text \<open>
  \<^verbatim>\<open>submit_batch_generation\<close> of \<^verbatim>\<open>routers/batch.py\<close>, with its dependency
  \<^verbatim>\<open>verify_api_key\<close> resolved first, as FastAPI does. The result is the response or the
  exception raised, and the service after the call. \<open>now\<close> is the clock reading inside
  \<^verbatim>\<open>submit_batch_job\<close> and \<open>now'\<close> the one of the response. The calls to the logging
  service write a log line and touch neither the service nor the result; they are left
  out.
\<close>

definition submit_batch_generation ::
  "string list \<Rightarrow> model_registry \<Rightarrow> batch_service \<Rightarrow> timestamp \<Rightarrow> string \<Rightarrow> timestamp \<Rightarrow>
   string \<Rightarrow> batch_generation_request \<Rightarrow> (exn + batch_submission_response) \<times> batch_service" where
  "submit_batch_generation api_keys models svc now uuid_hex now' token request =
     (case verify_api_key api_keys token of
        Inl e \<Rightarrow> (Inl e, svc)
      | Inr api_key \<Rightarrow>
          if \<not> is_valid_model models (req_model request)
          then (Inl (HTTPException 400 (''Unknown model: '' @ req_model request)), svc)
          else
            (case submit_batch_job svc now uuid_hex (req_model request)
                    (map (\<lambda>t. \<lparr> t_id = t_id t, t_messages = t_messages t \<rparr>) (req_tasks request))
                    (case req_max_tokens request of
                       None \<Rightarrow> 512 | Some n \<Rightarrow> if n = 0 then 512 else n)
                    (case req_temperature request of
                       None \<Rightarrow> 0.7 | Some x \<Rightarrow> if x = 0 then 0.7 else x)
                    (case req_top_p request of
                       None \<Rightarrow> 0.95 | Some x \<Rightarrow> if x = 0 then 0.95 else x)
                    (batch_metadata request) of
               (jid, svc') \<Rightarrow>
                 (Inr \<lparr> resp_job_id = jid, resp_status = ''queued'',
                        resp_submitted_at = now',
                        resp_task_count = length (req_tasks request) \<rparr>, svc')))"

section \<open>The worker\<close>

text \<open>
  \<^verbatim>\<open>process_batch_job\<close> suspends once, at
  \<^verbatim>\<open>await llm_client.batch_chat_completion(...)\<close>; requests to the API are served
  while it waits. The worker is therefore either idle (between two jobs, or asleep on an
  empty queue) or waiting for the executor, holding the job id and the \<^verbatim>\<open>job_data\<close>
  it read at the start. Of \<^verbatim>\<open>job_data\<close> the rest of the function reads the model, the
  tasks and the parameters, which no update changes.
\<close>

datatype worker = Idle | Awaiting string job

text \<open>
  \<^verbatim>\<open>process_batch_job\<close> up to the \<^verbatim>\<open>await\<close>: a job that is not found is logged
  and skipped, any other is marked \<^verbatim>\<open>'processing'\<close>.
\<close>

definition process_batch_job_begin ::
  "batch_service \<Rightarrow> timestamp \<Rightarrow> string \<Rightarrow> worker \<times> batch_service" where
  "process_batch_job_begin svc now jid =
     (case get_job_status svc now jid of
        None \<Rightarrow> (Idle, svc)
      | Some job_data \<Rightarrow>
          (Awaiting jid job_data, update_job_status svc now jid ''processing'' None None))"

text \<open>
  \<^verbatim>\<open>process_batch_job\<close> from the \<^verbatim>\<open>await\<close> on. \<open>exc\<close> is \<open>None\<close> when the
  \<^verbatim>\<open>try\<close> block runs to the update, and \<open>Some m\<close> when an exception with
  \<^verbatim>\<open>str(e) = m\<close> leaves the awaited call and the \<^verbatim>\<open>except Exception\<close> handler
  runs.
\<close>

definition process_batch_job_resume ::
  "model_registry \<Rightarrow> backend \<Rightarrow> batch_service \<Rightarrow> timestamp \<Rightarrow> string option \<Rightarrow> string \<Rightarrow> job \<Rightarrow>
   batch_service" where
  "process_batch_job_resume models be svc now exc jid job_data =
     (case exc of
        None \<Rightarrow>
          update_job_status svc now jid ''completed''
            (Some (batch_chat_completion models be (model_id job_data) (tasks job_data)
                     (max_tokens job_data) (temperature job_data) (top_p job_data)))
            None
      | Some error_msg \<Rightarrow>
          update_job_status svc now jid ''failed'' None (Some error_msg))"

text \<open>The whole of \<^verbatim>\<open>process_batch_job\<close>, started at \<open>now\<close> and resumed at \<open>now'\<close>.\<close>

definition process_batch_job ::
  "model_registry \<Rightarrow> backend \<Rightarrow> batch_service \<Rightarrow> timestamp \<Rightarrow> timestamp \<Rightarrow> string option \<Rightarrow>
   string \<Rightarrow> batch_service" where
  "process_batch_job models be svc now now' exc jid =
     (case process_batch_job_begin svc now jid of
        (Idle, svc') \<Rightarrow> svc'
      | (Awaiting j job_data, svc') \<Rightarrow>
          process_batch_job_resume models be svc' now' exc j job_data)"

section \<open>The running system\<close>

text \<open>
  The service and one worker loop, driven by the events that reach them: a submission,
  a status lookup, an iteration of \<^verbatim>\<open>worker_loop\<close> up to the point where it sleeps
  or waits for the executor, and the executor's answer. Every event carries the clock
  reading at which it happens; the readings of successive events are unrelated.
\<close>

record system =
  service :: batch_service
  the_worker :: worker

datatype event =
  Submit timestamp string string "task list" int pyfloat pyfloat "(string \<times> string) list option"
| Lookup timestamp string
| Poll timestamp
| Resume timestamp backend "string option"

text \<open>
  \<open>stored svc jid\<close> is the record last written under a job id, whether or not it has
  expired since.
\<close>

definition stored :: "batch_service \<Rightarrow> string \<Rightarrow> job option" where
  "stored svc jid =
     (case svc of
        RedisClient r \<Rightarrow> map_option fst (strings r (''job:'' @ jid))
      | InMemoryJobs jobs \<Rightarrow> map_of jobs jid)"

text \<open>
  One event. \<open>None\<close> marks an event that cannot happen in the state: the worker is not
  polled while it waits and not resumed while idle, and \<^verbatim>\<open>uuid.uuid4()\<close> does not
  produce a job id that was issued before.
\<close>

fun step :: "model_registry \<Rightarrow> event \<Rightarrow> system \<Rightarrow> system option" where
  "step models (Submit now uuid_hex mid ts mt temp tp md) s =
     (if stored (service s) (''batch-'' @ take 12 uuid_hex) = None
      then Some (s\<lparr>service := snd (submit_batch_job (service s) now uuid_hex mid ts mt temp tp md)\<rparr>)
      else None)"
| "step models (Lookup now jid) s = Some s"
| "step models (Poll now) s =
     (case the_worker s of
        Awaiting jid job_data \<Rightarrow> None
      | Idle \<Rightarrow>
          (case get_next_job (service s) of
             (None, svc') \<Rightarrow> Some (s\<lparr>service := svc'\<rparr>)
           | (Some jid, svc') \<Rightarrow>
               (case process_batch_job_begin svc' now jid of
                  (w, svc'') \<Rightarrow> Some \<lparr> service = svc'', the_worker = w \<rparr>)))"
| "step models (Resume now be exc) s =
     (case the_worker s of
        Idle \<Rightarrow> None
      | Awaiting jid job_data \<Rightarrow>
          Some \<lparr> service = process_batch_job_resume models be (service s) now exc jid job_data,
                 the_worker = Idle \<rparr>)"

fun exec :: "model_registry \<Rightarrow> event list \<Rightarrow> system \<Rightarrow> system option" where
  "exec models [] s = Some s"
| "exec models (ev # evs) s =
     (case step models ev s of None \<Rightarrow> None | Some s' \<Rightarrow> exec models evs s')"

text \<open>
  The system at startup: \<^verbatim>\<open>_initialize_redis\<close> keeps the Redis client when the
  server answers the ping and falls back to an empty dictionary otherwise; the server
  holds nothing yet and the worker is idle.
\<close>

definition initialize_redis :: "bool \<Rightarrow> batch_service" where
  "initialize_redis ping_ok =
     (if ping_ok then RedisClient \<lparr> strings = (\<lambda>k. None), lists = (\<lambda>k. []) \<rparr>
      else InMemoryJobs [])"

definition startup :: "bool \<Rightarrow> system" where
  "startup ping_ok = \<lparr> service = initialize_redis ping_ok, the_worker = Idle \<rparr>"

text \<open>
  \<open>retained svc now t\<close>: a record written at \<open>now\<close> is within its retention window at
  \<open>t\<close>. The Redis backend writes every record with \<^verbatim>\<open>ex=86400\<close>; the dictionary
  of the fallback has no expiry.
\<close>

definition retained :: "batch_service \<Rightarrow> timestamp \<Rightarrow> timestamp \<Rightarrow> bool" where
  "retained svc now t =
     (case svc of RedisClient r \<Rightarrow> t < now + 86400 | InMemoryJobs jobs \<Rightarrow> True)"

definition lapsed :: "batch_service \<Rightarrow> timestamp \<Rightarrow> timestamp \<Rightarrow> bool" where
  "lapsed svc now t =
     (case svc of RedisClient r \<Rightarrow> now + 86400 < t | InMemoryJobs jobs \<Rightarrow> False)"

text \<open>The order of the statuses, and the moves the state machine allows.\<close>

definition forward :: "string \<Rightarrow> string \<Rightarrow> bool" where
  "forward a b =
     (a = b \<or> (a = ''queued'' \<and> b = ''processing'') \<or>
      (a = ''processing'' \<and> (b = ''completed'' \<or> b = ''failed'')))"

text \<open>
  What holds of every state the system reaches. \<open>queue\<close> is the Redis list
  \<^verbatim>\<open>batch_queue\<close> (the fallback has none); \<open>results_ok\<close> relates the results of a
  job to its tasks and counters; \<open>job_ok\<close> is what holds of every stored record;
  \<open>system_ok\<close> adds what holds of the queue and of the job the worker is waiting on.
\<close>

definition queue :: "batch_service \<Rightarrow> string list" where
  "queue svc = (case svc of RedisClient r \<Rightarrow> lists r ''batch_queue'' | InMemoryJobs jobs \<Rightarrow> [])"

definition results_ok :: "job \<Rightarrow> bool" where
  "results_ok j =
     (case results j of
        None \<Rightarrow> True
      | Some rs \<Rightarrow>
          map r_id rs = map t_id (tasks j) \<and>
          completed_count j = length (filter (\<lambda>r. \<not> truthy_str (r_error r)) rs) \<and>
          failed_count j = length (filter (\<lambda>r. truthy_str (r_error r)) rs))"

definition job_ok :: "string \<Rightarrow> job \<Rightarrow> bool" where
  "job_ok jid j = (job_id j = jid \<and> task_count j = length (tasks j) \<and> results_ok j)"

fun worker_ok :: "batch_service \<Rightarrow> worker \<Rightarrow> bool" where
  "worker_ok svc Idle = True"
| "worker_ok svc (Awaiting jid job_data) =
     (\<exists>j. stored svc jid = Some j \<and> status j = ''processing'' \<and> tasks job_data = tasks j)"

fun keys_ok :: "batch_service \<Rightarrow> bool" where
  "keys_ok (RedisClient r) = True"
| "keys_ok (InMemoryJobs jobs) = distinct (map fst jobs)"

definition system_ok :: "system \<Rightarrow> bool" where
  "system_ok s =
     ((\<forall>jid j. stored (service s) jid = Some j \<longrightarrow> job_ok jid j) \<and>
      distinct (queue (service s)) \<and>
      (\<forall>jid \<in> set (queue (service s)).
         \<exists>j. stored (service s) jid = Some j \<and> status j = ''queued'') \<and>
      worker_ok (service s) (the_worker s) \<and>
      keys_ok (service s))"

section \<open>Sample data\<close>

text \<open>
  A registry with one model, a backend whose second call of a batch fails, and three
  tasks; the theorems below are instantiated on them.
\<close>

definition demo_models :: model_registry where
  "demo_models = (\<lambda>k. None)(''llama-7b'' \<mapsto> \<lparr> model_name = ''llama'' \<rparr>)"

definition demo_backend :: backend where
  "demo_backend =
     \<lparr> create = (\<lambda>n name msgs mt temp tp.
          if n = 1 then Inl ''boom''
          else Inr \<lparr> br_choices = [\<lparr> bc_content = Some ''ok'',
                                      bc_finish_reason = Some ''stop'' \<rparr>],
                     br_usage = Some \<lparr> prompt_tokens = 3, completion_tokens = 2,
                                       total_tokens = 5 \<rparr> \<rparr>),
       uuid4_hex = (\<lambda>n. ''0123456789abcdef0123456789abcdef''),
       time_now = (\<lambda>n. 1700000000) \<rparr>"

definition demo_tasks :: "task list" where
  "demo_tasks = [\<lparr> t_id = ''t1'', t_messages = [] \<rparr>, \<lparr> t_id = ''t2'', t_messages = [] \<rparr>,
                 \<lparr> t_id = ''t3'', t_messages = [] \<rparr>]"

text \<open>
  The service right after startup on either backend and after one submission of the
  three tasks at clock reading 1700000000.
\<close>

definition demo_uuid :: string where
  "demo_uuid = ''0123456789abcdef0123456789abcdef''"

definition demo_jid :: string where
  "demo_jid = ''batch-0123456789ab''"

definition demo_service :: "bool \<Rightarrow> batch_service" where
  "demo_service ping_ok =
     snd (submit_batch_job (initialize_redis ping_ok) 1700000000 demo_uuid ''llama-7b''
            demo_tasks 512 0.7 0.95 None)"

text \<open>
  A run of the system: the submission, the worker taking the job, and the executor
  answering with the second call failed.
\<close>

definition demo_events :: "event list" where
  "demo_events =
     [Submit 1700000000 demo_uuid ''llama-7b'' demo_tasks 512 0.7 0.95 None,
      Poll 1700000010,
      Resume 1700000020 demo_backend None]"

text \<open>
  The record that submission writes, and the results of the executor on the three tasks.
\<close>

definition demo_job :: job where
  "demo_job =
     \<lparr> job_id = demo_jid, status = ''queued'', model_id = ''llama-7b'',
       tasks = demo_tasks, max_tokens = 512, temperature = 0.7, top_p = 0.95,
       metadata = [],
       submitted_at = 1700000000, started_at = None, completed_at = None,
       task_count = 3, completed_count = 0, failed_count = 0,
       results = None, error = None \<rparr>"

definition demo_results :: "task_result list" where
  "demo_results =
     [\<lparr> r_id = ''t1'', r_output = ''ok'',
        r_usage = \<lparr> prompt_tokens = 3, completion_tokens = 2, total_tokens = 5 \<rparr>,
        r_error = None \<rparr>,
      \<lparr> r_id = ''t2'', r_output = [],
        r_usage = \<lparr> prompt_tokens = 0, completion_tokens = 0, total_tokens = 0 \<rparr>,
        r_error = Some ''Error calling model llama-7b: boom'' \<rparr>,
      \<lparr> r_id = ''t3'', r_output = ''ok'',
        r_usage = \<lparr> prompt_tokens = 3, completion_tokens = 2, total_tokens = 5 \<rparr>,
        r_error = None \<rparr>]"

text \<open>The states of the run on the fallback backend, after the poll and at the end.\<close>

definition demo_waiting :: system where
  "demo_waiting =
     \<lparr> service = InMemoryJobs
         [(demo_jid, demo_job\<lparr>status := ''processing'', started_at := Some 1700000010\<rparr>)],
       the_worker = Awaiting demo_jid demo_job \<rparr>"

definition demo_done :: system where
  "demo_done =
     \<lparr> service = InMemoryJobs
         [(demo_jid,
           demo_job\<lparr>status := ''completed'', started_at := Some 1700000010,
                     completed_at := Some 1700000020, results := Some demo_results,
                     completed_count := 2, failed_count := 1\<rparr>)],
       the_worker = Idle \<rparr>"

section \<open>Reading and writing records\<close>

lemma retained_update [simp]:
  "retained (update_job_status svc now jid st rs err) a b = retained svc a b"
  by (cases svc) (simp_all add: update_job_status_def retained_def Let_def split: option.splits)

lemma retained_self [simp]: "retained svc now now"
  by (cases svc) (simp_all add: retained_def)

lemma get_after_update:
  assumes "get_job_status svc now jid = Some j" and "retained svc now t"
  shows "get_job_status (update_job_status svc now jid st rs err) t jid
           = Some (apply_update j now st rs err)"
  using assms
  by (cases svc)
     (simp_all add: update_job_status_def get_job_status_def redis_get_def redis_set_def
        AList.update_conv' retained_def)

lemma get_after_update_lapsed:
  assumes "get_job_status svc now jid = Some j" and "lapsed svc now t"
  shows "get_job_status (update_job_status svc now jid st rs err) t jid = None"
  using assms
  by (cases svc)
     (simp_all add: update_job_status_def get_job_status_def redis_get_def redis_set_def
        AList.update_conv' lapsed_def)

lemma get_after_submit:
  assumes "submit_batch_job svc now u mid ts mt temp tp md = (jid, svc')"
    and "retained svc now t"
  shows "get_job_status svc' t jid =
     Some \<lparr> job_id = jid, status = ''queued'', model_id = mid, tasks = ts,
            max_tokens = mt, temperature = temp, top_p = tp,
            metadata = (case md of None \<Rightarrow> [] | Some m \<Rightarrow> m),
            submitted_at = now, started_at = None, completed_at = None,
            task_count = length ts, completed_count = 0, failed_count = 0,
            results = None, error = None \<rparr>"
  using assms
  by (cases svc)
     (auto simp add: submit_batch_job_def get_job_status_def redis_get_def redis_set_def
        redis_lpush_def AList.update_conv' Let_def retained_def)

lemma get_after_submit_lapsed:
  assumes "submit_batch_job svc now u mid ts mt temp tp md = (jid, svc')"
    and "lapsed svc now t"
  shows "get_job_status svc' t jid = None"
  using assms
  by (cases svc)
     (auto simp add: submit_batch_job_def get_job_status_def redis_get_def redis_set_def
        redis_lpush_def AList.update_conv' Let_def lapsed_def)

lemma get_imp_stored: "get_job_status svc now jid = Some j \<Longrightarrow> stored svc jid = Some j"
  by (cases svc)
     (auto simp add: get_job_status_def stored_def redis_get_def split: option.splits if_splits)

lemma stored_update:
  "stored (update_job_status svc now jid st rs err) k =
     (case get_job_status svc now jid of
        None \<Rightarrow> stored svc k
      | Some j \<Rightarrow> if k = jid then Some (apply_update j now st rs err) else stored svc k)"
  by (cases svc)
     (auto simp add: update_job_status_def stored_def redis_set_def AList.update_conv'
        split: option.splits)

lemma queue_update [simp]: "queue (update_job_status svc now jid st rs err) = queue svc"
  by (cases svc)
     (auto simp add: update_job_status_def queue_def redis_set_def split: option.splits)

lemma stored_submit:
  "stored (snd (submit_batch_job svc now u mid ts mt temp tp md)) k =
     (if k = ''batch-'' @ take 12 u
      then Some \<lparr> job_id = ''batch-'' @ take 12 u, status = ''queued'', model_id = mid,
                  tasks = ts, max_tokens = mt, temperature = temp, top_p = tp,
                  metadata = (case md of None \<Rightarrow> [] | Some m \<Rightarrow> m),
                  submitted_at = now, started_at = None, completed_at = None,
                  task_count = length ts, completed_count = 0, failed_count = 0,
                  results = None, error = None \<rparr>
      else stored svc k)"
  by (cases svc)
     (auto simp add: submit_batch_job_def stored_def redis_set_def redis_lpush_def
        AList.update_conv' Let_def)

lemma queue_submit:
  "queue (snd (submit_batch_job svc now u mid ts mt temp tp md)) =
     (case svc of
        RedisClient r \<Rightarrow> (''batch-'' @ take 12 u) # queue svc
      | InMemoryJobs jobs \<Rightarrow> [])"
  by (cases svc)
     (auto simp add: submit_batch_job_def queue_def redis_set_def redis_lpush_def Let_def)

lemma apply_update_kept [simp]:
  "tasks (apply_update j now st rs err) = tasks j"
  "job_id (apply_update j now st rs err) = job_id j"
  "task_count (apply_update j now st rs err) = task_count j"
  "status (apply_update j now st rs err) = st"
  by (simp_all add: apply_update_def Let_def split: option.splits)

lemma apply_update_no_results [simp]:
  "results (apply_update j now st None err) = results j"
  "completed_count (apply_update j now st None err) = completed_count j"
  "failed_count (apply_update j now st None err) = failed_count j"
  by (simp_all add: apply_update_def Let_def)

lemma apply_update_terminal:
  "st = ''completed'' \<or> st = ''failed'' \<Longrightarrow> completed_at (apply_update j now st rs err) = Some now"
  by (auto simp add: apply_update_def Let_def split: option.splits)

lemma apply_update_started:
  "truthy_int (started_at j) \<Longrightarrow>
   started_at (apply_update j now ''processing'' None None) = started_at j"
  by (simp add: apply_update_def Let_def)

section \<open>The executor returns one result per task\<close>

lemma batch_loop_eq:
  "batch_loop models be mid mt temp tp n ts acc =
     acc @ map (\<lambda>(i, t). task_result_of models be mid mt temp tp i t)
             (zip [n ..< n + length ts] ts)"
proof (induction ts arbitrary: n acc)
  case Nil
  then show ?case by simp
next
  case (Cons t ts)
  have "[n ..< n + length (t # ts)] = n # [Suc n ..< Suc n + length ts]"
    by (simp add: upt_rec)
  then show ?case using Cons.IH [of "Suc n"] by simp
qed

lemma batch_length: "length (batch_chat_completion models be mid ts mt temp tp) = length ts"
  by (simp add: batch_chat_completion_def batch_loop_eq)

lemma batch_nth:
  "i < length ts \<Longrightarrow>
   batch_chat_completion models be mid ts mt temp tp ! i
     = task_result_of models be mid mt temp tp i (ts ! i)"
  by (simp add: batch_chat_completion_def batch_loop_eq)

lemma task_result_of_id [simp]: "r_id (task_result_of models be mid mt temp tp n t) = t_id t"
  by (simp add: task_result_of_def try_task_def split: sum.splits list.splits)

lemma batch_ids: "map r_id (batch_chat_completion models be mid ts mt temp tp) = map t_id ts"
  by (rule nth_equalityI) (simp_all add: batch_length batch_nth)

section \<open>Task failures are isolated\<close>

text \<open>
  C3. For every list of tasks and every behaviour of the backend,
  \<^verbatim>\<open>batch_chat_completion\<close> returns a list (every exception of a model call is
  caught by \<^verbatim>\<open>except Exception\<close>, so none leaves the function) with one entry per
  task, in task order. Entry \<open>i\<close> is the outcome of the call made for task \<open>i\<close>
  alone, whatever happened to the tasks before it; when that call raises \<open>e\<close> the entry
  has the task's id, the empty output, three zero usage counters and \<^verbatim>\<open>str(e)\<close> as
  error.
\<close>

theorem batch_isolates_task_failures:
  "length (batch_chat_completion models be mid ts mt temp tp) = length ts \<and>
   map r_id (batch_chat_completion models be mid ts mt temp tp) = map t_id ts \<and>
   (\<forall>i < length ts.
      batch_chat_completion models be mid ts mt temp tp ! i
        = task_result_of models be mid mt temp tp i (ts ! i) \<and>
      (\<forall>e. chat_completion models be i mid (t_messages (ts ! i)) mt temp tp = Inl e \<longrightarrow>
         batch_chat_completion models be mid ts mt temp tp ! i
           = \<lparr> r_id = t_id (ts ! i), r_output = [],
               r_usage = \<lparr> prompt_tokens = 0, completion_tokens = 0, total_tokens = 0 \<rparr>,
               r_error = Some (str_exn e) \<rparr>))"
  by (simp add: batch_length batch_ids batch_nth task_result_of_def try_task_def)

text \<open>
  Three tasks, the call for the second one raising: the second entry records the error
  and the third task is still run.
\<close>

theorem batch_isolates_task_failures_witness:
  "(1::nat) < length demo_tasks \<and>
   chat_completion demo_models demo_backend 1 ''llama-7b'' (t_messages (demo_tasks ! 1))
       512 0.7 0.95
     = Inl (RuntimeError ''Error calling model llama-7b: boom'') \<and>
   batch_chat_completion demo_models demo_backend ''llama-7b'' demo_tasks 512 0.7 0.95 ! 1
     = \<lparr> r_id = ''t2'', r_output = [],
         r_usage = \<lparr> prompt_tokens = 0, completion_tokens = 0, total_tokens = 0 \<rparr>,
         r_error = Some ''Error calling model llama-7b: boom'' \<rparr> \<and>
   batch_chat_completion demo_models demo_backend ''llama-7b'' demo_tasks 512 0.7 0.95 ! 2
     = \<lparr> r_id = ''t3'', r_output = ''ok'',
         r_usage = \<lparr> prompt_tokens = 3, completion_tokens = 2, total_tokens = 5 \<rparr>,
         r_error = None \<rparr>"
proof -
  have l: "(1::nat) < length demo_tasks" by (simp add: demo_tasks_def)
  have m: "t_messages (demo_tasks ! 1) = []" by (simp add: demo_tasks_def)
  have i: "t_id (demo_tasks ! 1) = ''t2''" by (simp add: demo_tasks_def)
  note t = batch_isolates_task_failures
             [of demo_models demo_backend "''llama-7b''" demo_tasks 512 "0.7" "0.95"]
  from t l have a:
    "\<forall>e. chat_completion demo_models demo_backend 1 ''llama-7b''
            (t_messages (demo_tasks ! 1)) 512 0.7 0.95 = Inl e \<longrightarrow>
         batch_chat_completion demo_models demo_backend ''llama-7b'' demo_tasks 512 0.7 0.95 ! 1
           = \<lparr> r_id = t_id (demo_tasks ! 1), r_output = [],
               r_usage = \<lparr> prompt_tokens = 0, completion_tokens = 0, total_tokens = 0 \<rparr>,
               r_error = Some (str_exn e) \<rparr>"
    by blast
  have c: "chat_completion demo_models demo_backend 1 ''llama-7b''
             (t_messages (demo_tasks ! 1)) 512 0.7 0.95
           = Inl (RuntimeError ''Error calling model llama-7b: boom'')"
    using m by (simp add: chat_completion_def demo_models_def demo_backend_def get_model_def)
  from a c have r1:
    "batch_chat_completion demo_models demo_backend ''llama-7b'' demo_tasks 512 0.7 0.95 ! 1
     = \<lparr> r_id = ''t2'', r_output = [],
         r_usage = \<lparr> prompt_tokens = 0, completion_tokens = 0, total_tokens = 0 \<rparr>,
         r_error = Some ''Error calling model llama-7b: boom'' \<rparr>"
    using i by simp
  have l2: "(2::nat) < length demo_tasks" by (simp add: demo_tasks_def)
  from t l2 have
    "batch_chat_completion demo_models demo_backend ''llama-7b'' demo_tasks 512 0.7 0.95 ! 2
       = task_result_of demo_models demo_backend ''llama-7b'' 512 0.7 0.95 2 (demo_tasks ! 2)"
    by blast
  also have "\<dots> = \<lparr> r_id = ''t3'', r_output = ''ok'',
         r_usage = \<lparr> prompt_tokens = 3, completion_tokens = 2, total_tokens = 5 \<rparr>,
         r_error = None \<rparr>"
    by (simp add: task_result_of_def try_task_def chat_completion_def demo_models_def
          demo_backend_def get_model_def demo_tasks_def)
  finally show ?thesis using l c r1 by simp
qed

section \<open>Facts about the sample data\<close>

lemma demo_submit:
  "submit_batch_job (initialize_redis b) 1700000000 demo_uuid ''llama-7b'' demo_tasks
     512 0.7 0.95 None
     = (demo_jid, demo_service b)"
  by (simp add: demo_service_def submit_batch_job_def demo_uuid_def demo_jid_def Let_def
        split: batch_service.splits)

lemma demo_retained: "retained (initialize_redis b) 1700000000 1700000005"
  by (simp add: retained_def initialize_redis_def)

lemma demo_get:
  "get_job_status (demo_service b) 1700000005 demo_jid =
     Some \<lparr> job_id = demo_jid, status = ''queued'', model_id = ''llama-7b'',
            tasks = demo_tasks, max_tokens = 512, temperature = 0.7, top_p = 0.95,
            metadata = [],
            submitted_at = 1700000000, started_at = None, completed_at = None,
            task_count = 3, completed_count = 0, failed_count = 0,
            results = None, error = None \<rparr>"
  using get_after_submit [OF demo_submit demo_retained] by (simp add: demo_tasks_def)

lemma demo_retained_service [simp]:
  "retained (demo_service b) a c = retained (initialize_redis b) a c"
  by (simp add: demo_service_def submit_batch_job_def Let_def retained_def
        initialize_redis_def)

lemma demo_missing: "get_job_status (demo_service b) t ''batch-ffffffffffff'' = None"
  by (simp add: demo_service_def submit_batch_job_def Let_def demo_uuid_def
        get_job_status_def initialize_redis_def redis_get_def redis_set_def redis_lpush_def)

section \<open>Submission\<close>



text \<open>
  C5. When the model of a request is not in the registry, the endpoint
  \<^verbatim>\<open>submit_batch_generation\<close> ends with an exception (the 400 of the model check, or
  the 401 of the key check that runs before it) and the service is exactly as it was: no
  record written, nothing queued, and no job id among the results.
\<close>

theorem unknown_model_rejected:
  assumes "\<not> is_valid_model models (req_model request)"
  shows "\<exists>e. submit_batch_generation api_keys models svc now u now' token request
              = (Inl e, svc)"
  using assms by (simp add: submit_batch_generation_def split: sum.splits)

theorem unknown_model_rejected_witness:
  "\<not> is_valid_model demo_models ''nonexistent-model'' \<and>
   (\<exists>e. submit_batch_generation [] demo_models (demo_service True) 1700000005 demo_uuid
          1700000005 ''key''
          \<lparr> req_model = ''nonexistent-model'', req_tasks = demo_tasks,
            req_max_tokens = None, req_temperature = None, req_top_p = None,
            batch_metadata = None \<rparr>
        = (Inl e, demo_service True))"
proof -
  have h: "\<not> is_valid_model demo_models
               (req_model \<lparr> req_model = ''nonexistent-model'', req_tasks = demo_tasks,
                            req_max_tokens = None, req_temperature = None,
                            req_top_p = None, batch_metadata = None \<rparr>)"
    by (simp add: is_valid_model_def demo_models_def)
  show ?thesis using unknown_model_rejected [OF h] h by simp
qed

section \<open>Updates\<close>

text \<open>
  C7. When \<^verbatim>\<open>get_job_status\<close> does not find the job (never created, or expired),
  \<^verbatim>\<open>update_job_status\<close> with any status, results and error returns the service
  unchanged: the whole store and the queue are as before. The function has no exception
  of its own to raise on that path.
\<close>

theorem update_absent_is_noop:
  "get_job_status svc now jid = None \<Longrightarrow> update_job_status svc now jid st rs err = svc"
  by (simp add: update_job_status_def)

theorem update_absent_is_noop_witness:
  "get_job_status (demo_service True) 1700000005 ''batch-ffffffffffff'' = None \<and>
   update_job_status (demo_service True) 1700000005 ''batch-ffffffffffff'' ''completed''
     (Some [\<lparr> r_id = ''t1'', r_output = ''ok'',
              r_usage = \<lparr> prompt_tokens = 3, completion_tokens = 2, total_tokens = 5 \<rparr>,
              r_error = None \<rparr>]) (Some ''late'') = demo_service True"
  using update_absent_is_noop [OF demo_missing [of True 1700000005]]
        demo_missing [of True 1700000005]
  by simp

text \<open>
  C4. For a job that \<^verbatim>\<open>get_job_status\<close> finds, a first
  \<^verbatim>\<open>update_job_status(job_id, 'processing')\<close> leaves \<^verbatim>\<open>started_at\<close> set (to the
  clock reading of the call when it was \<^verbatim>\<open>None\<close> before), and after a second such
  call, made at any time, every lookup that still finds the job shows the
  \<^verbatim>\<open>started_at\<close> of the first call. The clock reading of the first call is taken to
  be a unix time other than 0, the one integer that \<^verbatim>\<open>not job_data['started_at']\<close>
  does not tell from \<^verbatim>\<open>None\<close>.
\<close>

theorem mark_processing_keeps_started_at:
  assumes "get_job_status svc now jid = Some j" and "now \<noteq> 0"
  shows "\<exists>j1. get_job_status (update_job_status svc now jid ''processing'' None None) now jid
                = Some j1 \<and>
           started_at j1 \<noteq> None \<and>
           (started_at j = None \<longrightarrow> started_at j1 = Some now) \<and>
           (\<forall>now' t j2.
              get_job_status
                (update_job_status (update_job_status svc now jid ''processing'' None None)
                   now' jid ''processing'' None None) t jid = Some j2
              \<longrightarrow> started_at j2 = started_at j1)"
proof -
  let ?j1 = "apply_update j now ''processing'' None None"
  let ?svc1 = "update_job_status svc now jid ''processing'' None None"
  have 1: "get_job_status ?svc1 now jid = Some ?j1"
    using assms(1) by (rule get_after_update) simp
  have s: "truthy_int (started_at ?j1)"
    using assms(2)
    by (auto simp add: apply_update_def Let_def truthy_int_def split: option.splits)
  have st: "stored ?svc1 jid = Some ?j1" using 1 by (rule get_imp_stored)
  have "started_at j2 = started_at ?j1"
    if "get_job_status (update_job_status ?svc1 now' jid ''processing'' None None) t jid = Some j2"
    for now' t j2
  proof -
    from that have "stored (update_job_status ?svc1 now' jid ''processing'' None None) jid = Some j2"
      by (rule get_imp_stored)
    then have "j2 = ?j1 \<or> j2 = apply_update ?j1 now' ''processing'' None None"
      using st by (auto simp add: stored_update split: option.splits dest: get_imp_stored)
    then show ?thesis using s by (auto simp add: apply_update_started)
  qed
  moreover have "started_at j = None \<longrightarrow> started_at ?j1 = Some now"
    by (simp add: apply_update_def Let_def truthy_int_def)
  moreover have "started_at ?j1 \<noteq> None"
    using s by (auto simp: truthy_int_def split: option.splits)
  ultimately show ?thesis using 1 by simp
qed

theorem mark_processing_keeps_started_at_witness:
  "get_job_status (demo_service True) 1700000005 demo_jid \<noteq> None \<and>
   (1700000005::int) \<noteq> 0 \<and>
   (\<exists>j2. get_job_status
           (update_job_status
              (update_job_status (demo_service True) 1700000005 demo_jid ''processing'' None None)
              1700000020 demo_jid ''processing'' None None)
           1700000030 demo_jid = Some j2 \<and>
         started_at j2 = Some 1700000005)"
proof -
  let ?svc1 = "update_job_status (demo_service True) 1700000005 demo_jid ''processing'' None None"
  let ?svc2 = "update_job_status ?svc1 1700000020 demo_jid ''processing'' None None"
  have n: "(1700000005::int) \<noteq> 0" by simp
  have r1: "retained (demo_service True) 1700000005 1700000020"
    unfolding demo_retained_service by (simp add: retained_def initialize_redis_def)
  have r2: "retained ?svc1 1700000020 1700000030"
    unfolding retained_update demo_retained_service by (simp add: retained_def initialize_redis_def)
  have g1: "get_job_status ?svc1 1700000020 demo_jid \<noteq> None"
    using get_after_update [OF demo_get [of True] r1] by simp
  then obtain x where x: "get_job_status ?svc1 1700000020 demo_jid = Some x" by auto
  have g2: "get_job_status ?svc2 1700000030 demo_jid \<noteq> None"
    using get_after_update [OF x r2] by simp
  then obtain j2 where j2: "get_job_status ?svc2 1700000030 demo_jid = Some j2" by auto
  have "\<forall>now' t j2.
          get_job_status
            (update_job_status ?svc1 now' demo_jid ''processing'' None None) t demo_jid = Some j2
          \<longrightarrow> started_at j2 = Some 1700000005"
    using mark_processing_keeps_started_at [OF demo_get [of True] n] by auto
  then have "started_at j2 = Some 1700000005" using j2 by blast
  then show ?thesis using j2 demo_get [of True] by simp
qed

text \<open>
  What the test \<^verbatim>\<open>not job_data['started_at']\<close> does with a start recorded at clock
  reading 0: the next call records its own reading.
\<close>

lemma started_at_reset_at_epoch:
  "started_at (apply_update (apply_update j 0 ''processing'' None None) now ''processing'' None None)
     = (if truthy_int (started_at j) then started_at j else Some now)"
  by (simp add: apply_update_def Let_def truthy_int_def)

text \<open>
  C9. For a job that \<^verbatim>\<open>get_job_status\<close> finds, an \<^verbatim>\<open>update_job_status\<close> whose
  \<^verbatim>\<open>results\<close> argument is \<^verbatim>\<open>None\<close> or the empty list leaves \<^verbatim>\<open>results\<close>,
  \<^verbatim>\<open>completed_count\<close> and \<^verbatim>\<open>failed_count\<close> as they were. In particular a failure
  (status \<^verbatim>\<open>'failed'\<close>, an error message, which is a non-empty string, and no
  results) sets status, error and \<^verbatim>\<open>completed_at\<close>, and the results of a job that
  had none stay \<^verbatim>\<open>None\<close>.
\<close>

theorem update_without_results_keeps_results:
  assumes "get_job_status svc now jid = Some j"
    and "rs = None \<or> rs = Some []"
    and "retained svc now t"
  shows "\<exists>j'. get_job_status (update_job_status svc now jid st rs err) t jid = Some j' \<and>
           results j' = results j \<and>
           completed_count j' = completed_count j \<and>
           failed_count j' = failed_count j \<and>
           (st = ''failed'' \<and> truthy_str err \<longrightarrow>
              status j' = ''failed'' \<and> error j' = err \<and> completed_at j' = Some now \<and>
              (results j = None \<longrightarrow> results j' = None))"
proof -
  let ?j' = "apply_update j now st rs err"
  have g: "get_job_status (update_job_status svc now jid st rs err) t jid = Some ?j'"
    using assms(1,3) by (rule get_after_update)
  have r: "results ?j' = results j" "completed_count ?j' = completed_count j"
    "failed_count ?j' = failed_count j"
    using assms(2) by (auto simp add: apply_update_def Let_def truthy_list_def)
  have f: "st = ''failed'' \<and> truthy_str err \<longrightarrow>
       status ?j' = ''failed'' \<and> error ?j' = err \<and> completed_at ?j' = Some now"
    using assms(2) by (auto simp add: apply_update_def Let_def truthy_list_def)
  show ?thesis using g r f by auto
qed

theorem update_without_results_keeps_results_witness:
  "get_job_status (demo_service True) 1700000005 demo_jid \<noteq> None \<and>
   retained (demo_service True) 1700000005 1700000009 \<and>
   truthy_str (Some ''Connection refused'') \<and>
   (\<exists>j'. get_job_status
           (update_job_status (demo_service True) 1700000005 demo_jid ''failed'' None
              (Some ''Connection refused'')) 1700000009 demo_jid = Some j' \<and>
         results j' = None \<and> completed_count j' = 0 \<and> failed_count j' = 0 \<and>
         status j' = ''failed'' \<and> error j' = Some ''Connection refused'' \<and>
         completed_at j' = Some 1700000005)"
proof -
  have r: "retained (demo_service True) 1700000005 1700000009"
    unfolding demo_retained_service by (simp add: retained_def initialize_redis_def)
  have t: "truthy_str (Some ''Connection refused'')" by (simp add: truthy_str_def)
  show ?thesis
    using update_without_results_keeps_results
            [OF demo_get [of True] _ r, of None "''failed''" "Some ''Connection refused''"]
          demo_get [of True] r t
    by auto
qed

text \<open>
  C10. For a job that \<^verbatim>\<open>get_job_status\<close> finds, every \<^verbatim>\<open>update_job_status\<close> with
  status \<^verbatim>\<open>'completed'\<close> or \<^verbatim>\<open>'failed'\<close> sets \<^verbatim>\<open>completed_at\<close> to the clock
  reading of that call: after a first terminal update at \<open>now\<close> the field is \<open>now\<close>,
  and after a second one at \<open>now'\<close> it is \<open>now'\<close>, the earlier value overwritten.
\<close>

theorem terminal_update_overwrites_completed_at:
  assumes "get_job_status svc now jid = Some j"
    and "st = ''completed'' \<or> st = ''failed''"
    and "st' = ''completed'' \<or> st' = ''failed''"
    and "retained svc now now'" and "retained svc now' t"
  shows "\<exists>j1 j2.
           get_job_status (update_job_status svc now jid st rs err) now' jid = Some j1 \<and>
           completed_at j1 = Some now \<and>
           get_job_status
             (update_job_status (update_job_status svc now jid st rs err)
                now' jid st' rs' err') t jid = Some j2 \<and>
           completed_at j2 = Some now'"
proof -
  let ?svc1 = "update_job_status svc now jid st rs err"
  have 1: "get_job_status ?svc1 now' jid = Some (apply_update j now st rs err)"
    using assms(1,4) by (rule get_after_update)
  have r: "retained ?svc1 now' t" using assms(5) by simp
  have 2: "get_job_status (update_job_status ?svc1 now' jid st' rs' err') t jid
             = Some (apply_update (apply_update j now st rs err) now' st' rs' err')"
    using 1 r by (rule get_after_update)
  show ?thesis using 1 2 assms(2,3) by (simp add: apply_update_terminal)
qed

theorem terminal_update_overwrites_completed_at_witness:
  "get_job_status (demo_service False) 1700000005 demo_jid \<noteq> None \<and>
   (\<exists>j1 j2.
      get_job_status
        (update_job_status (demo_service False) 1700000005 demo_jid ''completed'' None None)
        1700000050 demo_jid = Some j1 \<and>
      completed_at j1 = Some 1700000005 \<and>
      get_job_status
        (update_job_status
           (update_job_status (demo_service False) 1700000005 demo_jid ''completed'' None None)
           1700000050 demo_jid ''failed'' None (Some ''late failure''))
        1700000060 demo_jid = Some j2 \<and>
      completed_at j2 = Some 1700000050)"
proof -
  have r1: "retained (demo_service False) 1700000005 1700000050"
    and r2: "retained (demo_service False) 1700000050 1700000060"
    unfolding demo_retained_service by (simp_all add: retained_def initialize_redis_def)
  show ?thesis
    using terminal_update_overwrites_completed_at
            [OF demo_get [of False] _ _ r1 r2, of "''completed''" "''failed''"
               None None None "Some ''late failure''"]
          demo_get [of False]
    by simp
qed

section \<open>Retention\<close>

text \<open>
  C8, as stated, asks that a lookup past the 24-hour window reports not-found on either
  backend. On the fallback it does not: a record submitted at 1700000000 is still
  returned at 1800000000.
\<close>

theorem fallback_record_outlives_retention:
  "get_job_status
     (snd (submit_batch_job (initialize_redis False) 1700000000 demo_uuid ''llama-7b''
             demo_tasks 512 0.7 0.95 None))
     1800000000 demo_jid \<noteq> None"
  by (simp add: submit_batch_job_def get_job_status_def initialize_redis_def Let_def
        demo_uuid_def demo_jid_def)

text \<open>
  C8, amended. On the Redis backend every write of a record, by \<^verbatim>\<open>submit_batch_job\<close>
  or by an \<^verbatim>\<open>update_job_status\<close> that finds the job, is made with
  \<^verbatim>\<open>ex=86400\<close>: the record is found by every lookup earlier than 86400 seconds after
  that write and by none later than that, and a lookup past the window reports not-found,
  not an error. On the in-process fallback a record has no expiry: after either write
  every lookup, at any time, finds it.
\<close>

theorem retention_by_backend:
  "(submit_batch_job (RedisClient r) now u mid ts mt temp tp md = (jid, svc') \<longrightarrow>
      (\<forall>t. t < now + 86400 \<longrightarrow> get_job_status svc' t jid \<noteq> None) \<and>
      (\<forall>t. now + 86400 < t \<longrightarrow> get_job_status svc' t jid = None)) \<and>
   (get_job_status (RedisClient r) now jid = Some j \<longrightarrow>
      (\<forall>t. t < now + 86400 \<longrightarrow>
           get_job_status (update_job_status (RedisClient r) now jid st rs err) t jid \<noteq> None) \<and>
      (\<forall>t. now + 86400 < t \<longrightarrow>
           get_job_status (update_job_status (RedisClient r) now jid st rs err) t jid = None)) \<and>
   (submit_batch_job (InMemoryJobs jobs) now u mid ts mt temp tp md = (jid, svc') \<longrightarrow>
      (\<forall>t. get_job_status svc' t jid \<noteq> None)) \<and>
   (get_job_status (InMemoryJobs jobs) now jid = Some j \<longrightarrow>
      (\<forall>t. get_job_status (update_job_status (InMemoryJobs jobs) now jid st rs err) t jid
             \<noteq> None))"
proof -
  have 1: "submit_batch_job (RedisClient r) now u mid ts mt temp tp md = (jid, svc') \<longrightarrow>
      (\<forall>t. t < now + 86400 \<longrightarrow> get_job_status svc' t jid \<noteq> None) \<and>
      (\<forall>t. now + 86400 < t \<longrightarrow> get_job_status svc' t jid = None)"
    using get_after_submit [of "RedisClient r" now u mid ts mt temp tp md jid svc']
          get_after_submit_lapsed [of "RedisClient r" now u mid ts mt temp tp md jid svc']
    by (simp add: retained_def lapsed_def)
  have 2: "get_job_status (RedisClient r) now jid = Some j \<longrightarrow>
      (\<forall>t. t < now + 86400 \<longrightarrow>
           get_job_status (update_job_status (RedisClient r) now jid st rs err) t jid \<noteq> None) \<and>
      (\<forall>t. now + 86400 < t \<longrightarrow>
           get_job_status (update_job_status (RedisClient r) now jid st rs err) t jid = None)"
    using get_after_update [of "RedisClient r" now jid j _ st rs err]
          get_after_update_lapsed [of "RedisClient r" now jid j _ st rs err]
    by (simp add: retained_def lapsed_def)
  have 3: "submit_batch_job (InMemoryJobs jobs) now u mid ts mt temp tp md = (jid, svc') \<longrightarrow>
      (\<forall>t. get_job_status svc' t jid \<noteq> None)"
    using get_after_submit [of "InMemoryJobs jobs" now u mid ts mt temp tp md jid svc']
    by (simp add: retained_def)
  have 4: "get_job_status (InMemoryJobs jobs) now jid = Some j \<longrightarrow>
      (\<forall>t. get_job_status (update_job_status (InMemoryJobs jobs) now jid st rs err) t jid
             \<noteq> None)"
    using get_after_update [of "InMemoryJobs jobs" now jid j _ st rs err]
    by (simp add: retained_def)
  show ?thesis using 1 2 3 4 by blast
qed

theorem retention_by_backend_witness:
  "submit_batch_job (RedisClient \<lparr> strings = (\<lambda>k. None), lists = (\<lambda>k. []) \<rparr>) 1700000000
     demo_uuid ''llama-7b'' demo_tasks 512 0.7 0.95 None = (demo_jid, demo_service True) \<and>
   submit_batch_job (InMemoryJobs []) 1700000000
     demo_uuid ''llama-7b'' demo_tasks 512 0.7 0.95 None = (demo_jid, demo_service False) \<and>
   get_job_status (demo_service True) 1700000005 demo_jid \<noteq> None \<and>
   get_job_status (demo_service True) 1800000000 demo_jid = None \<and>
   get_job_status (demo_service False) 1800000000 demo_jid \<noteq> None"
proof -
  have a: "submit_batch_job (RedisClient \<lparr> strings = (\<lambda>k. None), lists = (\<lambda>k. []) \<rparr>) 1700000000
     demo_uuid ''llama-7b'' demo_tasks 512 0.7 0.95 None = (demo_jid, demo_service True)"
    using demo_submit [of True] by (simp add: initialize_redis_def)
  have b: "submit_batch_job (InMemoryJobs []) 1700000000
     demo_uuid ''llama-7b'' demo_tasks 512 0.7 0.95 None = (demo_jid, demo_service False)"
    using demo_submit [of False] by (simp add: initialize_redis_def)
  note t = retention_by_backend
    [where r = "\<lparr> strings = (\<lambda>k. None), lists = (\<lambda>k. []) \<rparr>" and now = 1700000000
       and u = demo_uuid and mid = "''llama-7b''" and ts = demo_tasks and mt = 512
       and temp = "0.7" and tp = "0.95" and md = None and jid = demo_jid
       and jobs = "[]"]
  have c: "get_job_status (demo_service True) 1700000005 demo_jid \<noteq> None"
    and d: "get_job_status (demo_service True) 1800000000 demo_jid = None"
    using t [where svc' = "demo_service True"] a by simp_all
  have e: "get_job_status (demo_service False) 1800000000 demo_jid \<noteq> None"
    using t [where svc' = "demo_service False"] b by simp
  show ?thesis using a b c d e by simp
qed

section \<open>The states the system reaches\<close>

lemma results_ok_update_None: "results_ok j \<Longrightarrow> results_ok (apply_update j now st None err)"
  by (simp add: results_ok_def split: option.splits)

lemma results_ok_update_Some:
  "results_ok j \<Longrightarrow> map r_id rs = map t_id (tasks j) \<Longrightarrow> results_ok (apply_update j now st (Some rs) err)"
  by (simp add: results_ok_def apply_update_def Let_def truthy_list_def split: option.splits)

lemma job_ok_update_None: "job_ok jid j \<Longrightarrow> job_ok jid (apply_update j now st None err)"
  by (simp add: job_ok_def results_ok_update_None)

lemma job_ok_update_Some:
  "job_ok jid j \<Longrightarrow> map r_id rs = map t_id (tasks j) \<Longrightarrow> job_ok jid (apply_update j now st (Some rs) err)"
  by (simp add: job_ok_def results_ok_update_Some)

lemma system_ok_startup: "system_ok (startup b)"
  by (simp add: system_ok_def startup_def initialize_redis_def stored_def queue_def)

lemma queue_stored_not_None:
  "system_ok s \<Longrightarrow> stored (service s) jid = None \<Longrightarrow> jid \<notin> set (queue (service s))"
  by (auto simp add: system_ok_def)

lemma submit_ok:
  assumes "system_ok s" and "step models (Submit now u mid ts mt temp tp md) s = Some s'"
  shows "system_ok s'"
proof -
  let ?jid = "''batch-'' @ take 12 u"
  let ?svc' = "snd (submit_batch_job (service s) now u mid ts mt temp tp md)"
  from assms(2) have fresh: "stored (service s) ?jid = None"
    and s': "s' = s\<lparr>service := ?svc'\<rparr>"
    by (auto split: if_splits)
  have nq: "?jid \<notin> set (queue (service s))"
    using assms(1) fresh by (rule queue_stored_not_None)
  have 1: "\<forall>jid j. stored ?svc' jid = Some j \<longrightarrow> job_ok jid j"
    using assms(1) by (auto simp add: stored_submit system_ok_def job_ok_def results_ok_def)
  have 2: "distinct (queue ?svc')"
    using assms(1) nq by (cases "service s") (auto simp add: queue_submit system_ok_def)
  have 3: "\<forall>jid \<in> set (queue ?svc'). \<exists>j. stored ?svc' jid = Some j \<and> status j = ''queued''"
    using assms(1) by (cases "service s") (auto simp add: queue_submit stored_submit system_ok_def)
  have 4: "worker_ok ?svc' (the_worker s)"
    using assms(1) fresh by (cases "the_worker s") (auto simp add: stored_submit system_ok_def)
  have 5: "keys_ok ?svc'"
    using assms(1)
    by (cases "service s") (auto simp add: submit_batch_job_def system_ok_def Let_def distinct_update)
  show ?thesis unfolding system_ok_def s' using 1 2 3 4 5 by simp
qed

lemma keys_ok_update: "keys_ok svc \<Longrightarrow> keys_ok (update_job_status svc now jid st rs err)"
  by (cases svc) (auto simp add: update_job_status_def distinct_update split: option.splits)

lemma get_next_job_None:
  "get_next_job svc = (None, svc') \<Longrightarrow> svc' = svc"
  by (cases svc) (auto simp add: get_next_job_def redis_rpop_def split: list.splits option.splits prod.splits)

lemma get_next_job_Some:
  assumes "get_next_job svc = (Some jid, svc')" and "keys_ok svc"
    and "\<forall>k \<in> set (queue svc). \<exists>j. stored svc k = Some j \<and> status j = ''queued''"
  shows "stored svc' = stored svc \<and> keys_ok svc' \<and>
         (\<exists>j. stored svc jid = Some j \<and> status j = ''queued'') \<and>
         set (queue svc') \<subseteq> set (queue svc) \<and> (distinct (queue svc) \<longrightarrow> distinct (queue svc') \<and> jid \<notin> set (queue svc'))"
proof (cases svc)
  case (RedisClient r)
  from assms(1) RedisClient obtain xs where
    r: "rev (lists r ''batch_queue'') = jid # xs"
    and svc': "svc' = RedisClient (r\<lparr>lists := (lists r)(''batch_queue'' := rev xs)\<rparr>)"
    by (auto simp add: get_next_job_def redis_rpop_def split: list.splits)
  from r have q: "queue svc = rev xs @ [jid]"
    using RedisClient by (simp add: queue_def rev_swap [symmetric])
  have q': "queue svc' = rev xs" using svc' by (simp add: queue_def)
  have "stored svc' = stored svc" using svc' RedisClient by (auto simp add: stored_def fun_eq_iff)
  then show ?thesis using q q' assms(3) svc' by auto
next
  case (InMemoryJobs jobs)
  from assms(1) InMemoryJobs obtain j where
    f: "find (\<lambda>(k, job_data). status job_data = ''queued'') jobs = Some (jid, j)" and svc': "svc' = svc"
    by (auto simp add: get_next_job_def split: option.splits)
  from f have "(jid, j) \<in> set jobs" and "status j = ''queued''"
    by (auto simp add: find_Some_iff in_set_conv_nth)
  then have "stored svc jid = Some j \<and> status j = ''queued''"
    using assms(2) InMemoryJobs by (simp add: stored_def)
  then show ?thesis using svc' assms(2) InMemoryJobs by (auto simp add: queue_def)
qed

lemma poll_effect:
  assumes ok: "system_ok s" and st: "step models (Poll now) s = Some s'"
  shows "system_ok s' \<and>
         (\<forall>k. stored (service s') k = stored (service s) k \<or>
              (\<exists>j. stored (service s) k = Some j \<and> status j = ''queued'' \<and>
                   stored (service s') k = Some (apply_update j now ''processing'' None None)))"
proof -
  from st have idle: "the_worker s = Idle" by (auto split: worker.splits)
  obtain x svc' where g: "get_next_job (service s) = (x, svc')" by (cases "get_next_job (service s)")
  show ?thesis
  proof (cases x)
    case None
    with g have "svc' = service s" by (simp add: get_next_job_None)
    with st idle g None have "s' = s" by simp
    with ok show ?thesis by simp
  next
    case (Some jid)
    have q: "\<forall>k \<in> set (queue (service s)). \<exists>j. stored (service s) k = Some j \<and> status j = ''queued''"
      and d: "distinct (queue (service s))" and ko: "keys_ok (service s)"
      and jo: "\<forall>k j. stored (service s) k = Some j \<longrightarrow> job_ok k j"
      using ok by (simp_all add: system_ok_def)
    from g Some have g': "get_next_job (service s) = (Some jid, svc')" by simp
    note n = get_next_job_Some [OF g' ko q]
    from n have same: "stored svc' = stored (service s)" and ko': "keys_ok svc'"
      and sub: "set (queue svc') \<subseteq> set (queue (service s))"
      and d': "distinct (queue svc')" and nin: "jid \<notin> set (queue svc')"
      using d by auto
    from n obtain j where j: "stored (service s) jid = Some j" "status j = ''queued''" by auto
    show ?thesis
    proof (cases "get_job_status svc' now jid")
      case None
      then have s': "s' = \<lparr> service = svc', the_worker = Idle \<rparr>"
        using st idle g' by (simp add: process_batch_job_begin_def)
      have "system_ok s'"
        unfolding system_ok_def s' using same jo d' sub q ko' by auto
      then show ?thesis using s' same by simp
    next
      case (Some j0)
      then have "stored svc' jid = Some j0" by (rule get_imp_stored)
      with same j have j0: "j0 = j" by simp
      let ?svc'' = "update_job_status svc' now jid ''processing'' None None"
      have s': "s' = \<lparr> service = ?svc'', the_worker = Awaiting jid j \<rparr>"
        using st idle g' Some j0 by (simp add: process_batch_job_begin_def)
      have sto: "\<And>k. stored ?svc'' k =
           (if k = jid then Some (apply_update j now ''processing'' None None) else stored (service s) k)"
        using Some j0 same by (simp add: stored_update)
      have 1: "\<forall>k x. stored ?svc'' k = Some x \<longrightarrow> job_ok k x"
        using jo j by (auto simp add: sto job_ok_update_None)
      have 3: "\<forall>k \<in> set (queue ?svc''). \<exists>x. stored ?svc'' k = Some x \<and> status x = ''queued''"
        using q sub nin by (auto simp add: sto)
      have 4: "worker_ok ?svc'' (Awaiting jid j)" by (simp add: sto)
      have "system_ok s'"
        unfolding system_ok_def s' using 1 d' 3 4 ko' by (simp add: keys_ok_update)
      moreover have "\<forall>k. stored (service s') k = stored (service s) k \<or>
              (\<exists>j. stored (service s) k = Some j \<and> status j = ''queued'' \<and>
                   stored (service s') k = Some (apply_update j now ''processing'' None None))"
        using j by (auto simp add: s' sto)
      ultimately show ?thesis by simp
    qed
  qed
qed

lemma resume_effect:
  assumes ok: "system_ok s" and st: "step models (Resume now be exc) s = Some s'"
  shows "system_ok s' \<and>
         (\<forall>k. stored (service s') k = stored (service s) k \<or>
              (\<exists>j x. stored (service s) k = Some j \<and> status j = ''processing'' \<and>
                   stored (service s') k = Some x \<and>
                   (status x = ''completed'' \<or> status x = ''failed'')))"
proof -
  from st obtain jid jd where w: "the_worker s = Awaiting jid jd"
    by (auto split: worker.splits)
  have q: "\<forall>k \<in> set (queue (service s)). \<exists>j. stored (service s) k = Some j \<and> status j = ''queued''"
    and d: "distinct (queue (service s))" and ko: "keys_ok (service s)"
    and jo: "\<forall>k j. stored (service s) k = Some j \<longrightarrow> job_ok k j"
    and wo: "worker_ok (service s) (the_worker s)"
    using ok by (simp_all add: system_ok_def)
  from wo w obtain j where j: "stored (service s) jid = Some j" "status j = ''processing''"
    "tasks jd = tasks j" by auto
  define st' where "st' = (case exc of None \<Rightarrow> ''completed'' | Some m \<Rightarrow> ''failed'')"
  define rs where "rs = (case exc of None \<Rightarrow>
       Some (batch_chat_completion models be (model_id jd) (tasks jd)
                     (max_tokens jd) (temperature jd) (top_p jd)) | Some m \<Rightarrow> None)"
  define err where "err = (case exc of None \<Rightarrow> None | Some m \<Rightarrow> Some m)"
  let ?svc' = "update_job_status (service s) now jid st' rs err"
  have s': "s' = \<lparr> service = ?svc', the_worker = Idle \<rparr>"
    using st w by (cases exc) (simp_all add: process_batch_job_resume_def st'_def rs_def err_def)
  have tm: "st' = ''completed'' \<or> st' = ''failed''" by (cases exc) (simp_all add: st'_def)
  have jok: "job_ok jid (apply_update j now st' rs err)"
  proof (cases exc)
    case None
    then have "rs = Some (batch_chat_completion models be (model_id jd) (tasks jd)
                     (max_tokens jd) (temperature jd) (top_p jd))" by (simp add: rs_def)
    then show ?thesis using jo j by (simp add: job_ok_update_Some batch_ids)
  next
    case (Some m)
    then have "rs = None" by (simp add: rs_def)
    then show ?thesis using jo j by (simp add: job_ok_update_None)
  qed
  show ?thesis
  proof (cases "get_job_status (service s) now jid")
    case None
    then have "?svc' = service s" by (simp add: update_job_status_def)
    then have "s' = s\<lparr>the_worker := Idle\<rparr>" using s' by simp
    then show ?thesis using ok by (simp add: system_ok_def)
  next
    case (Some j0)
    then have "stored (service s) jid = Some j0" by (rule get_imp_stored)
    with j have j0: "j0 = j" by simp
    have sto: "\<And>k. stored ?svc' k =
           (if k = jid then Some (apply_update j now st' rs err) else stored (service s) k)"
      using Some j0 by (simp add: stored_update)
    have 1: "\<forall>k x. stored ?svc' k = Some x \<longrightarrow> job_ok k x"
      using jo jok by (auto simp add: sto)
    have nin: "jid \<notin> set (queue (service s))" using q j by auto
    have 3: "\<forall>k \<in> set (queue ?svc'). \<exists>x. stored ?svc' k = Some x \<and> status x = ''queued''"
      using q nin by (auto simp add: sto)
    have "system_ok s'"
      unfolding system_ok_def s' using 1 d 3 ko by (simp add: keys_ok_update)
    moreover have "\<forall>k. stored (service s') k = stored (service s) k \<or>
              (\<exists>j x. stored (service s) k = Some j \<and> status j = ''processing'' \<and>
                   stored (service s') k = Some x \<and>
                   (status x = ''completed'' \<or> status x = ''failed''))"
      using j tm by (auto simp add: s' sto)
    ultimately show ?thesis by simp
  qed
qed

lemma submit_effect:
  assumes "step models (Submit now u mid ts mt temp tp md) s = Some s'"
  shows "\<forall>k. stored (service s') k = stored (service s) k \<or>
              (stored (service s) k = None \<and>
               (\<exists>x. stored (service s') k = Some x \<and> status x = ''queued''))"
  using assms by (auto simp add: stored_submit split: if_splits)

lemma step_ok:
  assumes "system_ok s" and "step models ev s = Some s'"
  shows "system_ok s'"
proof (cases ev)
  case (Submit now u mid ts mt temp tp md)
  then show ?thesis using assms submit_ok by blast
next
  case (Lookup now jid)
  then show ?thesis using assms by simp
next
  case (Poll now)
  then show ?thesis using assms poll_effect by blast
next
  case (Resume now be exc)
  then show ?thesis using assms resume_effect by blast
qed

lemma step_moves:
  assumes "system_ok s" and "step models ev s = Some s'"
  shows "stored (service s') k = stored (service s) k \<or>
         (stored (service s) k = None \<and>
            (\<exists>x. stored (service s') k = Some x \<and> status x = ''queued'')) \<or>
         (\<exists>j x. stored (service s) k = Some j \<and> stored (service s') k = Some x \<and>
            ((status j = ''queued'' \<and> status x = ''processing'') \<or>
             (status j = ''processing'' \<and>
                (status x = ''completed'' \<or> status x = ''failed''))))"
proof (cases ev)
  case (Submit now u mid ts mt temp tp md)
  with assms(2) have "step models (Submit now u mid ts mt temp tp md) s = Some s'" by simp
  from submit_effect [OF this] show ?thesis by blast
next
  case (Lookup now jid)
  then show ?thesis using assms(2) by simp
next
  case (Poll now)
  with assms(2) have "step models (Poll now) s = Some s'" by simp
  from poll_effect [OF assms(1) this]
  have "stored (service s') k = stored (service s) k \<or>
        (\<exists>j. stored (service s) k = Some j \<and> status j = ''queued'' \<and>
             stored (service s') k = Some (apply_update j now ''processing'' None None))"
    by blast
  then show ?thesis
  proof
    assume "stored (service s') k = stored (service s) k"
    then show ?thesis by simp
  next
    assume "\<exists>j. stored (service s) k = Some j \<and> status j = ''queued'' \<and>
             stored (service s') k = Some (apply_update j now ''processing'' None None)"
    then obtain j where "stored (service s) k = Some j" "status j = ''queued''"
      "stored (service s') k = Some (apply_update j now ''processing'' None None)" by blast
    moreover have "status (apply_update j now ''processing'' None None) = ''processing''"
      by simp
    ultimately show ?thesis by blast
  qed
next
  case (Resume now be exc)
  with assms(2) have "step models (Resume now be exc) s = Some s'" by simp
  from resume_effect [OF assms(1) this] show ?thesis by blast
qed

lemma exec_ok: "system_ok s \<Longrightarrow> exec models evs s = Some s' \<Longrightarrow> system_ok s'"
proof (induction evs arbitrary: s)
  case Nil
  then show ?case by simp
next
  case (Cons ev evs)
  from Cons.prems(2) obtain s1 where 1: "step models ev s = Some s1"
    and 2: "exec models evs s1 = Some s'"
    by (auto split: option.splits)
  from Cons.prems(1) 1 have "system_ok s1" by (rule step_ok)
  then show ?case using 2 by (rule Cons.IH)
qed

lemma exec_append:
  "exec models (xs @ ys) s =
     (case exec models xs s of None \<Rightarrow> None | Some s' \<Rightarrow> exec models ys s')"
  by (induction xs arbitrary: s) (auto split: option.splits)

lemma reachable_ok: "exec models evs (startup b) = Some s \<Longrightarrow> system_ok s"
  using system_ok_startup by (rule exec_ok)

section \<open>The sample run\<close>

lemma demo_service_False: "demo_service False = InMemoryJobs [(demo_jid, demo_job)]"
  by (simp add: demo_service_def submit_batch_job_def initialize_redis_def Let_def
        demo_uuid_def demo_jid_def demo_tasks_def demo_job_def)

lemma demo_step1:
  "step demo_models (Submit 1700000000 demo_uuid ''llama-7b'' demo_tasks 512 0.7 0.95 None)
     (startup False)
     = Some \<lparr> service = demo_service False, the_worker = Idle \<rparr>"
  by (simp add: startup_def demo_service_def stored_def initialize_redis_def)

lemma demo_step1_normal:
  "step demo_models (Submit 1700000000 demo_uuid ''llama-7b'' demo_tasks 512 (7 / 10) (19 / 20) None)
     (startup False)
     = Some \<lparr> service = demo_service False, the_worker = Idle \<rparr>"
  using demo_step1 by (simp del: step.simps)

lemma demo_step2:
  "step demo_models (Poll 1700000010) \<lparr> service = demo_service False, the_worker = Idle \<rparr>
     = Some demo_waiting"
  by (simp add: demo_service_False get_next_job_def process_batch_job_begin_def
        get_job_status_def update_job_status_def apply_update_def Let_def truthy_int_def
        demo_job_def demo_waiting_def)

lemma demo_batch:
  "batch_chat_completion demo_models demo_backend ''llama-7b'' demo_tasks 512 (7 / 10) (19 / 20)
     = demo_results"
  by (simp add: batch_chat_completion_def demo_tasks_def task_result_of_def try_task_def
        chat_completion_def get_model_def demo_models_def demo_backend_def demo_results_def)

lemma demo_step3:
  "step demo_models (Resume 1700000020 demo_backend None) demo_waiting = Some demo_done"
proof -
  have c: "length (filter (\<lambda>r. \<not> truthy_str (r_error r)) demo_results) = 2"
    "length (filter (\<lambda>r. truthy_str (r_error r)) demo_results) = 1"
    "truthy_list (Some demo_results)"
    by (simp_all add: demo_results_def truthy_str_def truthy_list_def)
  show ?thesis
    by (simp add: demo_waiting_def demo_done_def process_batch_job_resume_def demo_job_def
          demo_batch update_job_status_def get_job_status_def apply_update_def Let_def c)
qed

lemma demo_exec_2: "exec demo_models (take 2 demo_events) (startup False) = Some demo_waiting"
  by (simp add: demo_events_def demo_step1_normal demo_step2 del: step.simps)

lemma demo_exec_3: "exec demo_models demo_events (startup False) = Some demo_done"
  by (simp add: demo_events_def demo_step1_normal demo_step2 demo_step3 del: step.simps)

section \<open>The status only moves forward\<close>

lemma terminal_was_processing:
  assumes "exec models evs (startup b) = Some s"
    and "stored (service s) jid = Some j"
    and "status j = ''completed'' \<or> status j = ''failed''"
  shows "\<exists>n < length evs. \<exists>s0 j0.
           exec models (take n evs) (startup b) = Some s0 \<and>
           stored (service s0) jid = Some j0 \<and> status j0 = ''processing''"
  using assms
proof (induction evs arbitrary: s j rule: rev_induct)
  case Nil
  then have "s = startup b" by simp
  moreover have "stored (service (startup b)) jid = None"
    by (simp add: startup_def initialize_redis_def stored_def)
  ultimately show ?case using Nil.prems(2) by simp
next
  case (snoc ev evs)
  from snoc.prems(1) obtain s1 where e: "exec models evs (startup b) = Some s1"
    and st: "step models ev s1 = Some s"
    by (auto simp add: exec_append split: option.splits)
  have ok: "system_ok s1" using e by (rule reachable_ok)
  note m = step_moves [OF ok st, of jid]
  show ?case
  proof (cases "stored (service s1) jid = Some j")
    case True
    from snoc.IH [OF e True snoc.prems(3)] obtain n s0 j0 where
      "n < length evs" "exec models (take n evs) (startup b) = Some s0"
      "stored (service s0) jid = Some j0" "status j0 = ''processing''" by blast
    then show ?thesis by (intro exI [of _ n]) auto
  next
    case False
    with m snoc.prems(2,3) obtain j1 where
      "stored (service s1) jid = Some j1" "status j1 = ''processing''"
      by auto
    then show ?thesis using e by (intro exI [of _ "length evs"]) auto
  qed
qed

text \<open>
  C1. Take any state the system reaches from startup, on either backend, through
  submissions (\<^verbatim>\<open>submit_batch_job\<close>, with job ids that were not issued before),
  lookups (\<^verbatim>\<open>get_job_status\<close>) and the worker loop with its calls of
  \<^verbatim>\<open>update_job_status\<close>. Whatever event comes next: a record that appears is
  \<^verbatim>\<open>'queued'\<close>; a record that was there is still there, and its status is either
  the same, or was \<^verbatim>\<open>'queued'\<close> and is \<^verbatim>\<open>'processing'\<close>, or was
  \<^verbatim>\<open>'processing'\<close> and is \<^verbatim>\<open>'completed'\<close> or \<^verbatim>\<open>'failed'\<close>. And every record
  that is \<^verbatim>\<open>'completed'\<close> or \<^verbatim>\<open>'failed'\<close> was \<^verbatim>\<open>'processing'\<close> in an earlier
  state of the same run. The records are the stored ones, so the statement covers every
  record a lookup can return (lemma \<open>get_imp_stored\<close>).
\<close>

theorem status_moves_forward:
  assumes "exec models evs (startup ping_ok) = Some s"
  shows "(\<forall>ev s' jid j'.
            step models ev s = Some s' \<longrightarrow> stored (service s') jid = Some j' \<longrightarrow>
            (case stored (service s) jid of
               None \<Rightarrow> status j' = ''queued''
             | Some j \<Rightarrow> forward (status j) (status j'))) \<and>
         (\<forall>ev s' jid j.
            step models ev s = Some s' \<longrightarrow> stored (service s) jid = Some j \<longrightarrow>
            stored (service s') jid \<noteq> None) \<and>
         (\<forall>jid j.
            stored (service s) jid = Some j \<longrightarrow>
            status j = ''completed'' \<or> status j = ''failed'' \<longrightarrow>
            (\<exists>n < length evs. \<exists>s0 j0.
               exec models (take n evs) (startup ping_ok) = Some s0 \<and>
               stored (service s0) jid = Some j0 \<and> status j0 = ''processing''))"
proof -
  have ok: "system_ok s" using assms by (rule reachable_ok)
  have 1: "case stored (service s) jid of
             None \<Rightarrow> status j' = ''queued''
           | Some j \<Rightarrow> forward (status j) (status j')"
    if "step models ev s = Some s'" and "stored (service s') jid = Some j'"
    for ev s' jid j'
    using step_moves [OF ok that(1), of jid] that(2)
    by (auto simp add: forward_def split: option.splits)
  have 2: "stored (service s') jid \<noteq> None"
    if "step models ev s = Some s'" and "stored (service s) jid = Some j"
    for ev s' jid j
    using step_moves [OF ok that(1), of jid] that(2) by auto
  have 3: "\<exists>n < length evs. \<exists>s0 j0.
               exec models (take n evs) (startup ping_ok) = Some s0 \<and>
               stored (service s0) jid = Some j0 \<and> status j0 = ''processing''"
    if "stored (service s) jid = Some j" and "status j = ''completed'' \<or> status j = ''failed''"
    for jid j
    using assms that by (rule terminal_was_processing)
  show ?thesis using 1 2 3 by blast
qed

section \<open>Results match the tasks\<close>

lemma results_ok_counts:
  assumes "job_ok jid j" and "results j = Some rs"
  shows "length rs = task_count j \<and> map r_id rs = map t_id (tasks j) \<and>
         completed_count j + failed_count j = task_count j \<and>
         completed_count j = length (filter (\<lambda>r. \<not> truthy_str (r_error r)) rs) \<and>
         failed_count j = length (filter (\<lambda>r. truthy_str (r_error r)) rs)"
proof -
  from assms have m: "map r_id rs = map t_id (tasks j)"
    and c: "completed_count j = length (filter (\<lambda>r. \<not> truthy_str (r_error r)) rs)"
    and f: "failed_count j = length (filter (\<lambda>r. truthy_str (r_error r)) rs)"
    and t: "task_count j = length (tasks j)"
    by (simp_all add: job_ok_def results_ok_def)
  from m have l: "length rs = length (tasks j)" by (rule map_eq_imp_length_eq)
  have "length (filter (\<lambda>r. truthy_str (r_error r)) rs) +
        length (filter (\<lambda>r. \<not> truthy_str (r_error r)) rs) = length rs"
    by (rule sum_length_filter_compl)
  then show ?thesis using m c f t l by simp
qed

text \<open>
  C2. In every state the system reaches, a job that a lookup returns with its
  \<^verbatim>\<open>results\<close> set has exactly \<^verbatim>\<open>task_count\<close> results, the ids of the results are
  the ids of the job's tasks in the same order, \<^verbatim>\<open>completed_count\<close> is the number of
  results whose error is \<^verbatim>\<open>None\<close> or empty, \<^verbatim>\<open>failed_count\<close> the number of the
  others, and the two add up to \<^verbatim>\<open>task_count\<close>. The tasks of a record are those of
  its submission: no update changes them (lemma \<open>apply_update_kept\<close>).
\<close>

theorem results_match_tasks:
  assumes "exec models evs (startup ping_ok) = Some s"
    and "get_job_status (service s) t jid = Some j"
    and "results j = Some rs"
  shows "length rs = task_count j \<and> map r_id rs = map t_id (tasks j) \<and>
         completed_count j + failed_count j = task_count j \<and>
         completed_count j = length (filter (\<lambda>r. \<not> truthy_str (r_error r)) rs) \<and>
         failed_count j = length (filter (\<lambda>r. truthy_str (r_error r)) rs)"
proof -
  have "system_ok s" using assms(1) by (rule reachable_ok)
  moreover have "stored (service s) jid = Some j" using assms(2) by (rule get_imp_stored)
  ultimately have "job_ok jid j" by (simp add: system_ok_def)
  then show ?thesis using assms(3) by (rule results_ok_counts)
qed

lemma demo_stored:
  "stored (service demo_waiting) demo_jid
     = Some (demo_job\<lparr>status := ''processing'', started_at := Some 1700000010\<rparr>)"
  "stored (service demo_done) demo_jid
     = Some (demo_job\<lparr>status := ''completed'', started_at := Some 1700000010,
                       completed_at := Some 1700000020, results := Some demo_results,
                       completed_count := 2, failed_count := 1\<rparr>)"
  by (simp_all add: demo_waiting_def demo_done_def stored_def)

theorem status_moves_forward_witness:
  "exec demo_models (take 2 demo_events) (startup False) = Some demo_waiting \<and>
   step demo_models (Resume 1700000020 demo_backend None) demo_waiting = Some demo_done \<and>
   exec demo_models demo_events (startup False) = Some demo_done \<and>
   (\<exists>j j'. stored (service demo_waiting) demo_jid = Some j \<and> status j = ''processing'' \<and>
           stored (service demo_done) demo_jid = Some j' \<and> status j' = ''completed'' \<and>
           forward (status j) (status j')) \<and>
   (\<exists>n < length demo_events. \<exists>s0 j0.
      exec demo_models (take n demo_events) (startup False) = Some s0 \<and>
      stored (service s0) demo_jid = Some j0 \<and> status j0 = ''processing'')"
proof -
  note a = status_moves_forward [OF demo_exec_2]
  note b = status_moves_forward [OF demo_exec_3]
  from a demo_step3 demo_stored(2)
  have "case stored (service demo_waiting) demo_jid of
          None \<Rightarrow> status (demo_job\<lparr>status := ''completed'', started_at := Some 1700000010,
                       completed_at := Some 1700000020, results := Some demo_results,
                       completed_count := 2, failed_count := 1\<rparr>) = ''queued''
        | Some j \<Rightarrow> forward (status j)
             (status (demo_job\<lparr>status := ''completed'', started_at := Some 1700000010,
                       completed_at := Some 1700000020, results := Some demo_results,
                       completed_count := 2, failed_count := 1\<rparr>))"
    by blast
  then have f: "forward ''processing'' ''completed''"
    by (simp add: demo_stored(1))
  from b demo_stored(2)
  have p: "\<exists>n < length demo_events. \<exists>s0 j0.
      exec demo_models (take n demo_events) (startup False) = Some s0 \<and>
      stored (service s0) demo_jid = Some j0 \<and> status j0 = ''processing''"
    by simp
  show ?thesis using demo_exec_2 demo_step3 demo_exec_3 demo_stored f p
    by (simp del: step.simps exec.simps)
qed

theorem results_match_tasks_witness:
  "exec demo_models demo_events (startup False) = Some demo_done \<and>
   (\<exists>j. get_job_status (service demo_done) 1700000030 demo_jid = Some j \<and>
        results j = Some demo_results \<and>
        length demo_results = task_count j \<and>
        map r_id demo_results = map t_id (tasks j) \<and>
        completed_count j + failed_count j = task_count j \<and>
        completed_count j = 2 \<and> failed_count j = 1)"
proof -
  let ?j = "demo_job\<lparr>status := ''completed'', started_at := Some 1700000010,
                      completed_at := Some 1700000020, results := Some demo_results,
                      completed_count := 2, failed_count := 1\<rparr>"
  have g: "get_job_status (service demo_done) 1700000030 demo_jid = Some ?j"
    by (simp add: demo_done_def get_job_status_def)
  have r: "results ?j = Some demo_results" by simp
  from results_match_tasks [OF demo_exec_3 g r]
  have "length demo_results = task_count ?j \<and>
        map r_id demo_results = map t_id (tasks ?j) \<and>
        completed_count ?j + failed_count ?j = task_count ?j"
    by blast
  then show ?thesis using demo_exec_3 g by simp
qed

end
